theory Spec2Isabelle
  imports Complex_Main
begin

section \<open>Python values and exceptions\<close>

text \<open>
  The exceptions that the modelled paths of \<^verbatim>\<open>helper_classes.py\<close> can raise by themselves
  (\<^verbatim>\<open>xs[0]\<close> on an empty list, a missing dictionary key, iterating or calling into
  \<^verbatim>\<open>None\<close>, the explicit \<^verbatim>\<open>raise ImportError\<close>), and \<open>Raised\<close> for whatever an
  external collaborator (the engine SDK, \<^verbatim>\<open>interface_utilities\<close>, pandas) raises, by class
  name. A function returns \<open>Inl e\<close> when the Python raises \<open>e\<close>, and \<open>Inr v\<close> when it
  returns \<open>v\<close>.
\<close>

datatype error =
    IndexError
  | KeyError
  | TypeError
  | AttributeError
  | ImportError
  | Raised string

text \<open>
  The values a transform can store as an output payload. \<open>PScalar\<close> stands for the
  non-iterable scalars (int, float, bool); \<open>PList\<close> is exactly the Python type
  \<^verbatim>\<open>list\<close>, which \<^verbatim>\<open>get_data_list\<close> tests with \<^verbatim>\<open>type(x) == list\<close>; \<open>PDataFrame\<close> is a
  table with its column names and its rows.
\<close>

datatype 'a pyval =
    PNone
  | PScalar 'a
  | PStr string
  | PList "'a pyval list"
  | PTuple "'a pyval list"
  | PDataFrame "string list" "'a pyval list list"

fun is_list :: "'a pyval \<Rightarrow> bool" where
  "is_list (PList _) = True"
| "is_list _ = False"

text \<open>The iteration protocol of \<^verbatim>\<open>for value in out_values_list\<close>.\<close>

fun py_iter :: "'a pyval \<Rightarrow> error + 'a pyval list" where
  "py_iter (PList xs) = Inr xs"
| "py_iter (PTuple xs) = Inr xs"
| "py_iter (PStr s) = Inr (map (\<lambda>c. PStr [c]) s)"
| "py_iter (PDataFrame cols rows) = Inr (map PStr cols)"
| "py_iter PNone = Inl TypeError"
| "py_iter (PScalar _) = Inl TypeError"

section \<open>Column schema: \<^verbatim>\<open>Column_Metadata\<close> and \<^verbatim>\<open>AnchorMetadata\<close>\<close>

record Column_Metadata =
  cm_name :: string
  cm_type :: string
  cm_size :: int
  cm_scale :: int
  cm_source :: string
  cm_description :: string

record AnchorMetadata =
  columns :: "Column_Metadata list"

definition AnchorMetadata_init :: AnchorMetadata where
  "AnchorMetadata_init = \<lparr>columns = []\<rparr>"

text \<open>
  \<^verbatim>\<open>add_column\<close> is one \<^verbatim>\<open>self.columns.append(Column_Metadata(...))\<close>; there is no
  \<^verbatim>\<open>raise\<close> on the path, so the result is always \<open>Inr\<close>.
\<close>

definition add_column ::
  "AnchorMetadata \<Rightarrow> string \<Rightarrow> string \<Rightarrow> int \<Rightarrow> int \<Rightarrow> string \<Rightarrow> string \<Rightarrow> error + AnchorMetadata" where
  "add_column self name col_type size' scale source description =
     Inr (self\<lparr>columns := columns self @
       [\<lparr>cm_name = name, cm_type = col_type, cm_size = size', cm_scale = scale,
         cm_source = source, cm_description = description\<rparr>]\<rparr>)"

text \<open>The call with the keyword defaults \<^verbatim>\<open>size=256, scale=0, source="", description=""\<close>.\<close>

definition add_column_default :: "AnchorMetadata \<Rightarrow> string \<Rightarrow> string \<Rightarrow> error + AnchorMetadata" where
  "add_column_default self name col_type = add_column self name col_type 256 0 [] []"

fun index_of_loop :: "Column_Metadata list \<Rightarrow> string \<Rightarrow> int \<Rightarrow> int" where
  "index_of_loop [] name index = - 1"
| "index_of_loop (column # rest) name index =
     (if cm_name column = name then index else index_of_loop rest name (index + 1))"

definition index_of :: "AnchorMetadata \<Rightarrow> string \<Rightarrow> int" where
  "index_of self name = index_of_loop (columns self) name 0"

definition get_column_by_name :: "AnchorMetadata \<Rightarrow> string \<Rightarrow> Column_Metadata option" where
  "get_column_by_name self name =
     (let index = index_of self name
      in if index = - 1 then None else Some (columns self ! nat index))"

definition get_column_names :: "AnchorMetadata \<Rightarrow> string list" where
  "get_column_names self = map cm_name (columns self)"

section \<open>Input channel: \<^verbatim>\<open>AyxPluginInterface\<close>\<close>

text \<open>
  The fields of \<^verbatim>\<open>AyxPluginInterface\<close>: \<^verbatim>\<open>name\<close>, \<^verbatim>\<open>initialized\<close>, the three of
  \<^verbatim>\<open>_interface_record_vars\<close> and the three of \<^verbatim>\<open>_interface_state\<close>. The back reference
  \<^verbatim>\<open>parent\<close> is passed to the functions that read it. \<open>'ri\<close> is the engine's record-info
  object, \<open>'v\<close> a decoded field value.
\<close>

record ('ri, 'v) AyxPluginInterface =
  iface_name :: string
  initialized :: bool
  record_info_in :: "'ri option"
  record_list_in :: "'v list list"
  column_metadata :: "AnchorMetadata option"
  input_complete :: bool
  d_progress_percentage :: real
  data_processing_mode :: string

definition AyxPluginInterface_init :: "string \<Rightarrow> ('ri, 'v) AyxPluginInterface" where
  "AyxPluginInterface_init nm =
     \<lparr>iface_name = nm, initialized = False, record_info_in = None, record_list_in = [],
      column_metadata = None, input_complete = False, d_progress_percentage = 0,
      data_processing_mode = ''batch''\<rparr>"

definition is_complete :: "('ri, 'v) AyxPluginInterface \<Rightarrow> bool" where
  "is_complete self = input_complete self"

definition set_completed :: "('ri, 'v) AyxPluginInterface \<Rightarrow> ('ri, 'v) AyxPluginInterface" where
  "set_completed self = self\<lparr>input_complete := True\<rparr>"

definition set_col_metadata ::
  "('ri, 'v) AyxPluginInterface \<Rightarrow> AnchorMetadata option \<Rightarrow> ('ri, 'v) AyxPluginInterface" where
  "set_col_metadata self val = self\<lparr>column_metadata := val\<rparr>"

definition set_record_info_in ::
  "('ri, 'v) AyxPluginInterface \<Rightarrow> 'ri option \<Rightarrow> ('ri, 'v) AyxPluginInterface" where
  "set_record_info_in self record_info = self\<lparr>record_info_in := record_info\<rparr>"

text \<open>
  The helpers of \<^verbatim>\<open>snakeplane.interface_utilities\<close> that decode an engine row are
  parameters of the model, with their failures: \<^verbatim>\<open>get_column_metadata(record_info)\<close>,
  the iteration \<^verbatim>\<open>for field in record_info\<close>, and
  \<^verbatim>\<open>get_dynamic_type_value(field, in_record)\<close>. \<open>'f\<close> is a field of the record info,
  \<open>'rref\<close> the engine's \<^verbatim>\<open>RecordRef\<close>.
\<close>

record ('ri, 'f, 'rref, 'v) input_codec =
  get_column_metadata :: "'ri option \<Rightarrow> error + AnchorMetadata"
  record_info_fields :: "'ri \<Rightarrow> 'f list"
  get_dynamic_type_value :: "'f \<Rightarrow> 'rref \<Rightarrow> error + 'v"

text \<open>A list comprehension \<^verbatim>\<open>[f(x) for x in xs]\<close> whose body can raise: the first raise wins.\<close>

fun comprehension :: "('x \<Rightarrow> error + 'y) \<Rightarrow> 'x list \<Rightarrow> error + 'y list" where
  "comprehension f [] = Inr []"
| "comprehension f (x # xs) =
     (case f x of
        Inl e \<Rightarrow> Inl e
      | Inr y \<Rightarrow> (case comprehension f xs of Inl e \<Rightarrow> Inl e | Inr ys \<Rightarrow> Inr (y # ys)))"

definition create_record_for_input_records_list ::
  "('ri, 'f, 'rref, 'v) input_codec \<Rightarrow> ('ri, 'v) AyxPluginInterface \<Rightarrow> 'rref
     \<Rightarrow> error + ('v list \<times> AnchorMetadata)" where
  "create_record_for_input_records_list codec self in_record =
     (case get_column_metadata codec (record_info_in self) of
        Inl e \<Rightarrow> Inl e
      | Inr col_metadata \<Rightarrow>
          (case record_info_in self of
             None \<Rightarrow> Inl TypeError
           | Some record_info \<Rightarrow>
               (case comprehension (\<lambda>field. get_dynamic_type_value codec field in_record)
                       (record_info_fields codec record_info) of
                  Inl e \<Rightarrow> Inl e
                | Inr record \<Rightarrow> Inr (record, col_metadata))))"

definition accumulate_record ::
  "('ri, 'f, 'rref, 'v) input_codec \<Rightarrow> ('ri, 'v) AyxPluginInterface \<Rightarrow> 'rref
     \<Rightarrow> error + ('ri, 'v) AyxPluginInterface" where
  "accumulate_record codec self record =
     (case create_record_for_input_records_list codec self record of
        Inl e \<Rightarrow> Inl e
      | Inr (row, col_metadata) \<Rightarrow>
          Inr ((set_col_metadata self (Some col_metadata))
                 \<lparr>record_list_in := record_list_in self @ [row]\<rparr>))"

text \<open>A sequence of \<^verbatim>\<open>accumulate_record\<close> calls on one channel, stopped by the first raise.\<close>

fun accumulate_records ::
  "('ri, 'f, 'rref, 'v) input_codec \<Rightarrow> ('ri, 'v) AyxPluginInterface \<Rightarrow> 'rref list
     \<Rightarrow> error + ('ri, 'v) AyxPluginInterface" where
  "accumulate_records codec self [] = Inr self"
| "accumulate_records codec self (record # records) =
     (case accumulate_record codec self record of
        Inl e \<Rightarrow> Inl e
      | Inr self' \<Rightarrow> accumulate_records codec self' records)"

section \<open>Output channel: \<^verbatim>\<open>OutputAnchor\<close>\<close>

text \<open>
  The physical sink \<^verbatim>\<open>_handler\<close> is an object of the engine. It is modelled by the calls
  made on it, in order: \<^verbatim>\<open>init(record_info)\<close> and \<^verbatim>\<open>push_record(record, flag)\<close>. The field
  is \<open>None\<close> until \<^verbatim>\<open>save_output_anchor_refs\<close> stores the engine's handle; a call on
  \<^verbatim>\<open>None\<close> raises \<^verbatim>\<open>AttributeError\<close>.
\<close>

datatype ('ri, 'rec) sink_call =
    Init 'ri
  | PushRecord 'rec bool

record ('a, 'ri, 'rc, 'rec) OutputAnchor =
  oa_data :: "'a pyval"
  oa_metadata :: "AnchorMetadata option"
  oa_record_info_out :: "'ri option"
  oa_record_creator :: "'rc option"
  oa_handler :: "('ri, 'rec) sink_call list option"

definition OutputAnchor_init :: "('a, 'ri, 'rc, 'rec) OutputAnchor" where
  "OutputAnchor_init =
     \<lparr>oa_data = PNone, oa_metadata = None, oa_record_info_out = None,
      oa_record_creator = None, oa_handler = None\<rparr>"

text \<open>
  A method that mutates the channel has an outcome: the exception it raised, or \<open>None\<close>
  when it returned, together with the channel as the call left it. A raise does not undo
  the assignments made before it, so the state after a raise is part of the model.
\<close>

type_synonym 's outcome = "error option \<times> 's"

text \<open>
  What the engine and \<^verbatim>\<open>snakeplane.interface_utilities\<close> provide to the output side, as
  parameters with their failures: \<^verbatim>\<open>plugin.create_record_info()\<close> (a fresh
  \<^verbatim>\<open>sdk.RecordInfo\<close>), \<^verbatim>\<open>build_ayx_record_info(metadata, record_info)\<close> (it fills the
  record info in place; the model returns the exception, if any, and the object as the call
  left it), \<^verbatim>\<open>build_ayx_record_from_list(value, metadata, record_info, record_creator)\<close>
  (it returns the engine row and the record creator to reuse), and the truth value of a
  record info object, which \<^verbatim>\<open>if not self._record_info_out\<close> reads.
\<close>

record ('a, 'ri, 'rc, 'rec) output_codec =
  create_record_info :: "'ri"
  build_ayx_record_info :: "AnchorMetadata option \<Rightarrow> 'ri \<Rightarrow> error option \<times> 'ri"
  build_ayx_record_from_list ::
    "'a pyval \<Rightarrow> AnchorMetadata option \<Rightarrow> 'ri option \<Rightarrow> 'rc option \<Rightarrow> error + ('rec \<times> 'rc option)"
  record_info_truthy :: "'ri \<Rightarrow> bool"

text \<open>The two property setters, plain assignments; there is no \<^verbatim>\<open>raise\<close> on either path.\<close>

definition data_setter ::
  "('a, 'ri, 'rc, 'rec) OutputAnchor \<Rightarrow> 'a pyval \<Rightarrow> ('a, 'ri, 'rc, 'rec) OutputAnchor" where
  "data_setter self d = self\<lparr>oa_data := d\<rparr>"

definition metadata_setter ::
  "('a, 'ri, 'rc, 'rec) OutputAnchor \<Rightarrow> AnchorMetadata option
     \<Rightarrow> ('a, 'ri, 'rc, 'rec) OutputAnchor outcome" where
  "metadata_setter self md = (None, self\<lparr>oa_metadata := md\<rparr>)"

text \<open>The getter returns a deep copy, which is the same value.\<close>

definition metadata :: "('a, 'ri, 'rc, 'rec) OutputAnchor \<Rightarrow> AnchorMetadata option" where
  "metadata self = oa_metadata self"

text \<open>
  Modelled from the spec: \<^verbatim>\<open>interface_utilities.is_dataframe\<close> and
  \<^verbatim>\<open>interface_utilities.dataframe_to_list\<close> are not in the source file. By the spec a
  payload is a sequence of row tuples, a table or null, and normalising a table gives the
  ordered sequence of its rows.
\<close>

fun is_dataframe :: "'a pyval \<Rightarrow> bool" where
  "is_dataframe (PDataFrame _ _) = True"
| "is_dataframe _ = False"

fun dataframe_to_list :: "'a pyval \<Rightarrow> error + 'a pyval" where
  "dataframe_to_list (PDataFrame cols rows) = Inr (PList (map PList rows))"
| "dataframe_to_list _ = Inl AttributeError"

text \<open>
  \<^verbatim>\<open>get_data_list\<close>: the second test reads \<^verbatim>\<open>self._data[0]\<close> whenever the payload is a
  list, so an empty list raises \<^verbatim>\<open>IndexError\<close>.
\<close>

definition get_data_list :: "('a, 'ri, 'rc, 'rec) OutputAnchor \<Rightarrow> error + 'a pyval" where
  "get_data_list self =
     (if is_dataframe (oa_data self) then dataframe_to_list (oa_data self)
      else (case oa_data self of
              PList [] \<Rightarrow> Inl IndexError
            | PList (first # rest) \<Rightarrow>
                (if \<not> is_list first then Inr (PList [oa_data self]) else Inr (oa_data self))
            | _ \<Rightarrow> Inr (oa_data self)))"

text \<open>
  \<^verbatim>\<open>push_metadata\<close> assigns \<^verbatim>\<open>self._record_info_out\<close> before it fills the record info and
  before it calls the sink: when \<^verbatim>\<open>build_ayx_record_info\<close> raises, or the sink is missing,
  the record info stays stored on the channel although the sink was not bound.
\<close>

definition push_metadata ::
  "('a, 'ri, 'rc, 'rec) output_codec \<Rightarrow> ('a, 'ri, 'rc, 'rec) OutputAnchor
     \<Rightarrow> ('a, 'ri, 'rc, 'rec) OutputAnchor outcome" where
  "push_metadata plugin self =
     (let out_col_metadata = metadata self
      in (case oa_record_info_out self of
            Some _ \<Rightarrow> (None, self)
          | None \<Rightarrow>
              (case build_ayx_record_info plugin out_col_metadata (create_record_info plugin) of
                 (Some e, record_info) \<Rightarrow> (Some e, self\<lparr>oa_record_info_out := Some record_info\<rparr>)
               | (None, record_info) \<Rightarrow>
                   (case oa_handler self of
                      None \<Rightarrow> (Some AttributeError, self\<lparr>oa_record_info_out := Some record_info\<rparr>)
                    | Some calls \<Rightarrow>
                        (None, self\<lparr>oa_record_info_out := Some record_info,
                                    oa_handler := Some (calls @ [Init record_info])\<rparr>)))))"

text \<open>
  The loop \<^verbatim>\<open>for value in out_values_list\<close> of \<^verbatim>\<open>push_records\<close>. The rows pushed before a
  raise stay pushed; \<^verbatim>\<open>self._record_creator\<close> is assigned before the sink is called.
\<close>

fun push_records_loop ::
  "('a, 'ri, 'rc, 'rec) output_codec \<Rightarrow> AnchorMetadata option
     \<Rightarrow> ('a, 'ri, 'rc, 'rec) OutputAnchor \<Rightarrow> 'a pyval list
     \<Rightarrow> ('a, 'ri, 'rc, 'rec) OutputAnchor outcome" where
  "push_records_loop plugin out_col_metadata self [] = (None, self)"
| "push_records_loop plugin out_col_metadata self (val # vals) =
     (case build_ayx_record_from_list plugin val out_col_metadata
             (oa_record_info_out self) (oa_record_creator self) of
        Inl e \<Rightarrow> (Some e, self)
      | Inr (out_record, creator) \<Rightarrow>
          (case oa_handler self of
             None \<Rightarrow> (Some AttributeError, self\<lparr>oa_record_creator := creator\<rparr>)
           | Some calls \<Rightarrow>
               push_records_loop plugin out_col_metadata
                 (self\<lparr>oa_record_creator := creator,
                       oa_handler := Some (calls @ [PushRecord out_record False])\<rparr>)
                 vals))"

definition truthy :: "('a, 'ri, 'rc, 'rec) output_codec \<Rightarrow> 'ri option \<Rightarrow> bool" where
  "truthy plugin obj = (case obj of None \<Rightarrow> False | Some record_info \<Rightarrow> record_info_truthy plugin record_info)"

definition push_records ::
  "('a, 'ri, 'rc, 'rec) output_codec \<Rightarrow> ('a, 'ri, 'rc, 'rec) OutputAnchor
     \<Rightarrow> ('a, 'ri, 'rc, 'rec) OutputAnchor outcome" where
  "push_records plugin self =
     (case get_data_list self of
        Inl e \<Rightarrow> (Some e, self)
      | Inr out_values_list \<Rightarrow>
          (let out_col_metadata = metadata self
           in if out_values_list = PNone then (None, self)
              else (case (if \<not> truthy plugin (oa_record_info_out self)
                          then push_metadata plugin self else (None, self)) of
                      (Some e, self1) \<Rightarrow> (Some e, self1)
                    | (None, self1) \<Rightarrow>
                        (case py_iter out_values_list of
                           Inl e \<Rightarrow> (Some e, self1)
                         | Inr vals \<Rightarrow>
                             (case push_records_loop plugin out_col_metadata self1 vals of
                                (Some e, self2) \<Rightarrow> (Some e, self2)
                              | (None, self2) \<Rightarrow> (None, data_setter self2 PNone))))))"

section \<open>Plugin coordinator: \<^verbatim>\<open>AyxPlugin\<close>\<close>

text \<open>
  The state of \<^verbatim>\<open>AyxPlugin\<close> that the input side reads: \<^verbatim>\<open>_state_vars.initialized\<close>,
  the dictionary \<^verbatim>\<open>_state_vars.input_anchors\<close> from a channel name to the list of its
  connections, \<^verbatim>\<open>_state_vars.required_input_names\<close>, and the two attributes
  \<^verbatim>\<open>process_data_mode\<close> and \<^verbatim>\<open>process_data_input_type\<close> that the \<^verbatim>\<open>data\<close> accessor reads
  through \<^verbatim>\<open>self.parent\<close>.
\<close>

record ('ri, 'v) AyxPlugin =
  plugin_initialized :: bool
  input_anchors :: "string \<rightharpoonup> ('ri, 'v) AyxPluginInterface list"
  required_input_names :: "string list"
  process_data_mode :: string
  process_data_input_type :: string

text \<open>
  The loop of \<^verbatim>\<open>__init__\<close> over the input connections of the tool's configuration file, each
  given by its \<^verbatim>\<open>@Name\<close> and \<^verbatim>\<open>@Optional\<close> attributes.
\<close>

fun init_input_connections ::
  "('ri, 'v) AyxPlugin \<Rightarrow> (string \<times> string) list \<Rightarrow> ('ri, 'v) AyxPlugin" where
  "init_input_connections self [] = self"
| "init_input_connections self ((name, optional) # connections) =
     init_input_connections
       (self\<lparr>input_anchors := (input_anchors self)(name \<mapsto> []),
              required_input_names :=
                (if optional = ''False'' then required_input_names self @ [name]
                 else required_input_names self)\<rparr>)
       connections"

definition save_interface ::
  "('ri, 'v) AyxPlugin \<Rightarrow> string \<Rightarrow> ('ri, 'v) AyxPluginInterface \<Rightarrow> error + ('ri, 'v) AyxPlugin" where
  "save_interface self name interface =
     (case input_anchors self name of
        None \<Rightarrow> Inl KeyError
      | Some connections \<Rightarrow>
          Inr (self\<lparr>input_anchors := (input_anchors self)(name \<mapsto> connections @ [interface])\<rparr>))"

text \<open>
  The loop of \<^verbatim>\<open>all_inputs_completed\<close>: it has no \<^verbatim>\<open>break\<close>, so every required name is
  looked up, and a name that is not a key of the dictionary raises \<^verbatim>\<open>KeyError\<close>.
\<close>

fun all_inputs_completed_loop ::
  "('ri, 'v) AyxPlugin \<Rightarrow> string list \<Rightarrow> bool \<Rightarrow> error + bool" where
  "all_inputs_completed_loop self [] all_completed = Inr all_completed"
| "all_inputs_completed_loop self (name # names) all_completed =
     (case input_anchors self name of
        None \<Rightarrow> Inl KeyError
      | Some connections \<Rightarrow>
          all_inputs_completed_loop self names
            (if length connections = 0 \<or> \<not> list_all is_complete connections then False
             else all_completed))"

definition all_inputs_completed :: "('ri, 'v) AyxPlugin \<Rightarrow> error + bool" where
  "all_inputs_completed self =
     (if plugin_initialized self
      then all_inputs_completed_loop self (required_input_names self) True
      else Inr False)"

text \<open>
  \<^verbatim>\<open>clear_accumulated_records\<close> assigns \<^verbatim>\<open>record_list_in = []\<close> on every connection of
  every entry of the dictionary.
\<close>

definition clear_accumulated_records :: "('ri, 'v) AyxPlugin \<Rightarrow> ('ri, 'v) AyxPlugin" where
  "clear_accumulated_records self =
     self\<lparr>input_anchors :=
       (\<lambda>name. map_option (map (\<lambda>connection. connection\<lparr>record_list_in := []\<rparr>))
                  (input_anchors self name))\<rparr>"

text \<open>
  The \<^verbatim>\<open>data\<close> property of a connection. A list-typed read returns one row (stream mode)
  or the buffer itself; any other input type builds a table with pandas, which is
  \<open>None\<close> when the import failed and otherwise provides the \<^verbatim>\<open>DataFrame\<close> constructor
  (a parameter with its failures). \<^verbatim>\<open>record_list_in[0]\<close> raises \<^verbatim>\<open>IndexError\<close> on an empty
  buffer.
\<close>

datatype ('v, 'df) data_value =
    Row "'v list"
  | Rows "'v list list"
  | Frame 'df

definition data ::
  "('v list list \<Rightarrow> string list \<Rightarrow> error + 'df) option \<Rightarrow> ('ri, 'v) AyxPlugin
     \<Rightarrow> ('ri, 'v) AyxPluginInterface \<Rightarrow> error + ('v, 'df) data_value" where
  "data pd parent self =
     (if process_data_mode parent = ''stream'' \<and> process_data_input_type parent = ''list''
      then (case record_list_in self of
              [] \<Rightarrow> Inl IndexError
            | first # _ \<Rightarrow> Inr (Row first))
      else if process_data_input_type parent = ''list''
      then Inr (Rows (record_list_in self))
      else (case pd of
              None \<Rightarrow> Inl ImportError
            | Some DataFrame \<Rightarrow>
                (case column_metadata self of
                   None \<Rightarrow> Inl AttributeError
                 | Some col_metadata \<Rightarrow>
                     (case DataFrame (record_list_in self) (get_column_names col_metadata) of
                        Inl e \<Rightarrow> Inl e
                      | Inr df \<Rightarrow> Inr (Frame df)))))"

section \<open>Specification-side notions\<close>

text \<open>
  The schemas that the sink was bound with: the arguments of the \<^verbatim>\<open>init\<close> calls it
  received, in order.
\<close>

fun bound_of_call :: "('ri, 'rec) sink_call \<Rightarrow> 'ri list" where
  "bound_of_call (Init record_info) = [record_info]"
| "bound_of_call (PushRecord _ _) = []"

definition sink_inits :: "('ri, 'rec) sink_call list option \<Rightarrow> 'ri list" where
  "sink_inits handler = (case handler of None \<Rightarrow> [] | Some calls \<Rightarrow> concat (map bound_of_call calls))"

text \<open>
  The normalised payload in the words of the specification, which does not know Python's
  types: a row tuple is a non-empty ordered sequence (a list or a tuple) of scalar values, a
  payload is a sequence of row tuples, a table or null, and normalising gives the ordered
  sequence of the tuples: the rows of a table, the elements of a sequence of row tuples, and
  a single row wrapped as a singleton sequence. Null, the empty sequence and every other
  value have no normal form.
\<close>

fun is_sequence :: "'a pyval \<Rightarrow> bool" where
  "is_sequence (PList _) = True"
| "is_sequence (PTuple _) = True"
| "is_sequence _ = False"

fun is_scalar :: "'a pyval \<Rightarrow> bool" where
  "is_scalar PNone = True"
| "is_scalar (PScalar _) = True"
| "is_scalar (PStr _) = True"
| "is_scalar _ = False"

fun items :: "'a pyval \<Rightarrow> 'a pyval list" where
  "items (PList xs) = xs"
| "items (PTuple xs) = xs"
| "items _ = []"

definition spec_rows :: "'a pyval \<Rightarrow> 'a pyval list option" where
  "spec_rows payload =
     (case payload of
        PDataFrame cols rows \<Rightarrow> Some (map PList rows)
      | _ \<Rightarrow>
          if is_sequence payload \<and> items payload \<noteq> []
          then (if list_all is_sequence (items payload) then Some (items payload)
                else if list_all is_scalar (items payload) then Some [payload]
                else None)
          else None)"

text \<open>
  Encoding a sequence of rows against a schema and a record info, in order, each call
  receiving the record creator that the previous call returned.
\<close>

fun encode_rows ::
  "('a, 'ri, 'rc, 'rec) output_codec \<Rightarrow> AnchorMetadata option \<Rightarrow> 'ri \<Rightarrow> 'rc option
     \<Rightarrow> 'a pyval list \<Rightarrow> error + ('rec list \<times> 'rc option)" where
  "encode_rows plugin schema record_info creator [] = Inr ([], creator)"
| "encode_rows plugin schema record_info creator (row # rows) =
     (case build_ayx_record_from_list plugin row schema (Some record_info) creator of
        Inl e \<Rightarrow> Inl e
      | Inr (record, creator') \<Rightarrow>
          (case encode_rows plugin schema record_info creator' rows of
             Inl e \<Rightarrow> Inl e
           | Inr (records, creator'') \<Rightarrow> Inr (record # records, creator'')))"

text \<open>
  The record info that a push works with: the one already stored, or else the one built
  from the channel's metadata on a fresh \<^verbatim>\<open>RecordInfo\<close>.
\<close>

definition committed_record_info ::
  "('a, 'ri, 'rc, 'rec) output_codec \<Rightarrow> ('a, 'ri, 'rc, 'rec) OutputAnchor \<Rightarrow> error option \<times> 'ri" where
  "committed_record_info plugin self =
     (case oa_record_info_out self of
        Some record_info \<Rightarrow> (None, record_info)
      | None \<Rightarrow> build_ayx_record_info plugin (oa_metadata self) (create_record_info plugin))"




section \<open>Concrete collaborators\<close>

text \<open>
  A small engine to run the model on: a record info is the list of its field names, an
  incoming record reference is an association list from field names to values, an outgoing
  row pairs the column names of the schema with the values, and the record creator counts
  how often it was reused.
\<close>

definition codec0 :: "(string list, string, (string \<times> int) list, int) input_codec" where
  "codec0 = \<lparr>get_column_metadata =
       (\<lambda>ri. case ri of None \<Rightarrow> Inl AttributeError
          | Some fs \<Rightarrow> Inr \<lparr>columns = map (\<lambda>f. \<lparr>cm_name = f, cm_type = ''int64'', cm_size = 8,
               cm_scale = 0, cm_source = [], cm_description = []\<rparr>) fs\<rparr>),
     record_info_fields = (\<lambda>ri. ri),
     get_dynamic_type_value =
       (\<lambda>f r. case map_of r f of None \<Rightarrow> Inl (Raised ''FieldExtractionError'') | Some v \<Rightarrow> Inr v)\<rparr>"

definition iface0 :: "(string list, int) AyxPluginInterface" where
  "iface0 = (AyxPluginInterface_init ''A'')\<lparr>initialized := True, record_info_in := Some [''id'', ''n'']\<rparr>"

definition iface_done :: "(string list, int) AyxPluginInterface" where
  "iface_done = iface0\<lparr>record_list_in := [[1, 10], [2, 20]], input_complete := True\<rparr>"

definition plugin0 :: "(string list, int) AyxPlugin" where
  "plugin0 = init_input_connections
     \<lparr>plugin_initialized = True, input_anchors = Map.empty, required_input_names = [],
      process_data_mode = ''batch'', process_data_input_type = ''list''\<rparr>
     [(''A'', ''False''), (''B'', ''True'')]"

definition plugin1 :: "(string list, int) AyxPlugin" where
  "plugin1 = plugin0\<lparr>input_anchors := (input_anchors plugin0)(''A'' \<mapsto> [iface_done])\<rparr>"

lemmas input_fixture_defs = iface0_def iface_done_def plugin0_def plugin1_def AyxPluginInterface_init_def

definition col_id :: Column_Metadata where
  "col_id = \<lparr>cm_name = ''id'', cm_type = ''int64'', cm_size = 8, cm_scale = 0,
              cm_source = [], cm_description = []\<rparr>"

definition col_tag :: Column_Metadata where
  "col_tag = \<lparr>cm_name = ''tag'', cm_type = ''string'', cm_size = 256, cm_scale = 0,
               cm_source = [], cm_description = []\<rparr>"

definition schema1 :: AnchorMetadata where
  "schema1 = \<lparr>columns = [col_id, col_tag]\<rparr>"

definition schema2 :: AnchorMetadata where
  "schema2 = \<lparr>columns = [col_tag, col_id]\<rparr>"

definition out_codec0 :: "(int, string list, nat, (string \<times> int pyval) list) output_codec" where
  "out_codec0 =
     \<lparr>create_record_info = [],
      build_ayx_record_info =
        (\<lambda>md ri. case md of None \<Rightarrow> (Some AttributeError, ri)
                  | Some m \<Rightarrow> (None, ri @ get_column_names m)),
      build_ayx_record_from_list =
        (\<lambda>v md ri rc.
           case md of
             None \<Rightarrow> Inl AttributeError
           | Some m \<Rightarrow>
               (case v of
                  PList xs \<Rightarrow>
                    if length xs = length (columns m)
                    then Inr (zip (get_column_names m) xs, Some (case rc of None \<Rightarrow> 0 | Some n \<Rightarrow> Suc n))
                    else Inl (Raised ''SchemaMismatchError'')
                | _ \<Rightarrow> Inl TypeError)),
      record_info_truthy = (\<lambda>ri. True)\<rparr>"

definition anchor0 :: "(int, string list, nat, (string \<times> int pyval) list) OutputAnchor" where
  "anchor0 = OutputAnchor_init\<lparr>oa_handler := Some []\<rparr>"

definition anchor1 :: "(int, string list, nat, (string \<times> int pyval) list) OutputAnchor" where
  "anchor1 = \<lparr>oa_data = PNone, oa_metadata = Some schema1, oa_record_info_out = Some [''id'', ''tag''],
      oa_record_creator = Some 0,
      oa_handler = Some [Init [''id'', ''tag''],
                         PushRecord [(''id'', PScalar 1), (''tag'', PStr ''a'')] False]\<rparr>"

definition anchor2 :: "(int, string list, nat, (string \<times> int pyval) list) OutputAnchor" where
  "anchor2 = \<lparr>oa_data = PNone, oa_metadata = Some schema2, oa_record_info_out = Some [''id'', ''tag''],
      oa_record_creator = Some 1,
      oa_handler = Some [Init [''id'', ''tag''],
                         PushRecord [(''id'', PScalar 1), (''tag'', PStr ''a'')] False,
                         PushRecord [(''tag'', PStr ''b''), (''id'', PScalar 2)] False]\<rparr>"

definition anchor_tuples :: "(int, string list, nat, (string \<times> int pyval) list) OutputAnchor" where
  "anchor_tuples = anchor0\<lparr>oa_metadata := Some schema1,
     oa_data := PList [PTuple [PScalar 1, PStr ''a''], PTuple [PScalar 2, PStr ''b'']]\<rparr>"

definition anchor_unbound :: "(int, string list, nat, (string \<times> int pyval) list) OutputAnchor" where
  "anchor_unbound = \<lparr>oa_data = PNone, oa_metadata = Some schema1, oa_record_info_out = Some [],
      oa_record_creator = Some 0,
      oa_handler = Some [PushRecord [(''id'', PScalar 1), (''tag'', PStr ''a'')] False]\<rparr>"

lemmas fixture_defs = col_id_def col_tag_def schema1_def schema2_def out_codec0_def anchor0_def
  anchor1_def anchor2_def anchor_tuples_def anchor_unbound_def OutputAnchor_init_def

lemmas output_defs = push_records_def get_data_list_def push_metadata_def metadata_def
  metadata_setter_def data_setter_def truthy_def get_column_names_def sink_inits_def
  committed_record_info_def spec_rows_def

section \<open>Column schema properties\<close>

lemma index_of_loop_found:
  "index_of_loop cs nm i \<noteq> - 1 \<Longrightarrow> 0 \<le> i \<Longrightarrow> nm \<in> set (map cm_name cs)"
  by (induction cs arbitrary: i) (auto split: if_splits)

lemma index_of_loop_present:
  "nm \<in> set (map cm_name cs) \<Longrightarrow> 0 \<le> i \<Longrightarrow> index_of_loop cs nm i \<noteq> - 1"
proof (induction cs arbitrary: i)
  case Nil
  then show ?case by simp
next
  case (Cons c cs)
  show ?case
  proof (cases "cm_name c = nm")
    case True
    with Cons.prems show ?thesis by simp
  next
    case False
    with Cons.prems have "nm \<in> set (map cm_name cs)" by auto
    moreover from Cons.prems have "0 \<le> i + 1" by simp
    ultimately have "index_of_loop cs nm (i + 1) \<noteq> - 1" by (rule Cons.IH)
    with False show ?thesis by simp
  qed
qed

lemma index_of_present: "index_of md nm \<noteq> - 1 \<longleftrightarrow> nm \<in> set (get_column_names md)"
  unfolding index_of_def get_column_names_def
  using index_of_loop_found [of "columns md" nm 0] index_of_loop_present [of nm "columns md" 0]
  by auto

text \<open>
  C5, as amended. \<^verbatim>\<open>add_column\<close> appends the descriptor at the end of the schema and returns
  normally for every schema and every descriptor: the columns already present are kept in
  their order, the new descriptor is the last one, and the call does not fail when a column
  of the same name is already present (the duplicate is appended like any other column).
\<close>

theorem add_column_appends:
  "add_column self nm ty sz sc src descr =
     Inr (self\<lparr>columns := columns self @
       [\<lparr>cm_name = nm, cm_type = ty, cm_size = sz, cm_scale = sc,
         cm_source = src, cm_description = descr\<rparr>]\<rparr>)
   \<and> (\<exists>md. add_column self nm ty sz sc src descr = Inr md
        \<and> length (columns md) = Suc (length (columns self))
        \<and> take (length (columns self)) (columns md) = columns self
        \<and> cm_name (last (columns md)) = nm
        \<and> get_column_names md = get_column_names self @ [nm])"
  by (simp add: add_column_def get_column_names_def)

text \<open>
  C5, the claim as stated fails: a schema that already has a column \<open>id\<close> accepts a second
  column \<open>id\<close>; the call returns the schema with both columns instead of raising.
\<close>

theorem add_column_duplicate_counterexample:
  "index_of \<lparr>columns = [\<lparr>cm_name = ''id'', cm_type = ''int64'', cm_size = 8, cm_scale = 0,
        cm_source = [], cm_description = []\<rparr>]\<rparr> ''id'' = 0
   \<and> add_column \<lparr>columns = [\<lparr>cm_name = ''id'', cm_type = ''int64'', cm_size = 8, cm_scale = 0,
        cm_source = [], cm_description = []\<rparr>]\<rparr> ''id'' ''string'' 256 0 [] []
     = Inr \<lparr>columns =
         [\<lparr>cm_name = ''id'', cm_type = ''int64'', cm_size = 8, cm_scale = 0,
            cm_source = [], cm_description = []\<rparr>,
          \<lparr>cm_name = ''id'', cm_type = ''string'', cm_size = 256, cm_scale = 0,
            cm_source = [], cm_description = []\<rparr>]\<rparr>"
  by (simp add: add_column_def index_of_def)

section \<open>Input channel properties\<close>

lemma set_completed_funpow: "(set_completed ^^ Suc n) c = c\<lparr>input_complete := True\<rparr>"
  by (induction n) (simp_all add: set_completed_def)

text \<open>
  C9. \<^verbatim>\<open>set_completed\<close> is idempotent: after \<open>n \<ge> 1\<close> calls \<^verbatim>\<open>is_complete()\<close> is true, and
  the channel is the one before the calls with only \<^verbatim>\<open>input_complete\<close> set: name,
  initialized flag, record info, buffer, column metadata, progress and processing mode are
  the ones before.
\<close>

theorem set_completed_idempotent:
  assumes "1 \<le> n"
  shows "is_complete ((set_completed ^^ n) c)
    \<and> (set_completed ^^ n) c = c\<lparr>input_complete := True\<rparr>
    \<and> iface_name ((set_completed ^^ n) c) = iface_name c
    \<and> initialized ((set_completed ^^ n) c) = initialized c
    \<and> record_info_in ((set_completed ^^ n) c) = record_info_in c
    \<and> record_list_in ((set_completed ^^ n) c) = record_list_in c
    \<and> column_metadata ((set_completed ^^ n) c) = column_metadata c
    \<and> d_progress_percentage ((set_completed ^^ n) c) = d_progress_percentage c
    \<and> data_processing_mode ((set_completed ^^ n) c) = data_processing_mode c
    \<and> set_completed ((set_completed ^^ n) c) = (set_completed ^^ n) c"
proof -
  from assms obtain m where n: "n = Suc m" by (cases n) auto
  have eq: "(set_completed ^^ n) c = c\<lparr>input_complete := True\<rparr>"
    unfolding n by (rule set_completed_funpow)
  show ?thesis unfolding eq by (simp add: is_complete_def set_completed_def)
qed

theorem set_completed_idempotent_witness:
  "(1::nat) \<le> 3
   \<and> is_complete ((set_completed ^^ 3)
       (AyxPluginInterface_init ''Input'' :: (nat, int) AyxPluginInterface))
   \<and> (set_completed ^^ 3) (AyxPluginInterface_init ''Input'' :: (nat, int) AyxPluginInterface)
     = \<lparr>iface_name = ''Input'', initialized = False, record_info_in = None, record_list_in = [],
        column_metadata = None, input_complete = True, d_progress_percentage = 0,
        data_processing_mode = ''batch''\<rparr>"
  using set_completed_idempotent [of 3 "AyxPluginInterface_init ''Input'' :: (nat, int) AyxPluginInterface"]
  by (simp add: AyxPluginInterface_init_def is_complete_def)

lemma create_record_info_in:
  "record_info_in a = record_info_in b \<Longrightarrow>
   create_record_for_input_records_list codec a r = create_record_for_input_records_list codec b r"
  unfolding create_record_for_input_records_list_def by (simp split: sum.splits)

lemma accumulate_record_Inr:
  "accumulate_record codec self r = Inr self' \<longleftrightarrow>
   (\<exists>row md. create_record_for_input_records_list codec self r = Inr (row, md)
      \<and> self' = self\<lparr>column_metadata := Some md, record_list_in := record_list_in self @ [row]\<rparr>)"
  by (auto simp: accumulate_record_def set_col_metadata_def split: sum.splits)

lemma accumulate_records_buffer:
  "accumulate_records codec self records = Inr self' \<Longrightarrow>
   record_info_in self' = record_info_in self
   \<and> (\<exists>rows. record_list_in self' = record_list_in self @ rows
        \<and> list_all2 (\<lambda>r row. \<exists>md. create_record_for_input_records_list codec self r = Inr (row, md))
             records rows)"
proof (induction records arbitrary: self)
  case Nil
  then show ?case by simp
next
  case (Cons r rs)
  from Cons.prems obtain s1 where s1: "accumulate_record codec self r = Inr s1"
    and rest: "accumulate_records codec s1 rs = Inr self'"
    by (cases "accumulate_record codec self r") simp_all
  from s1 obtain row md where dec: "create_record_for_input_records_list codec self r = Inr (row, md)"
    and s1_eq: "s1 = self\<lparr>column_metadata := Some md, record_list_in := record_list_in self @ [row]\<rparr>"
    unfolding accumulate_record_Inr by blast
  have ri: "record_info_in s1 = record_info_in self" by (simp add: s1_eq)
  have buf: "record_list_in s1 = record_list_in self @ [row]" by (simp add: s1_eq)
  have same: "create_record_for_input_records_list codec s1 x = create_record_for_input_records_list codec self x" for x
    by (rule create_record_info_in) (rule ri)
  from Cons.IH [OF rest] obtain rows where
    a: "record_info_in self' = record_info_in s1"
    and b: "record_list_in self' = record_list_in s1 @ rows"
    and c: "list_all2 (\<lambda>r row. \<exists>md. create_record_for_input_records_list codec s1 r = Inr (row, md)) rs rows"
    by blast
  from c have c': "list_all2 (\<lambda>r row. \<exists>md. create_record_for_input_records_list codec self r = Inr (row, md)) rs rows"
    by (simp add: same)
  have b': "record_list_in self' = record_list_in self @ (row # rows)" by (simp add: b buf)
  have d: "list_all2 (\<lambda>r row. \<exists>md. create_record_for_input_records_list codec self r = Inr (row, md)) (r # rs) (row # rows)"
    using dec c' by simp
  have e: "record_info_in self' = record_info_in self" using a ri by simp
  from b' d e show ?case by blast
qed

lemma accumulate_records_total:
  "\<forall>r\<in>set records. \<exists>x. create_record_for_input_records_list codec self r = Inr x \<Longrightarrow>
   \<exists>self'. accumulate_records codec self records = Inr self'"
proof (induction records arbitrary: self)
  case Nil
  then show ?case by simp
next
  case (Cons r rs)
  from Cons.prems have "\<exists>x. create_record_for_input_records_list codec self r = Inr x" by simp
  then obtain row md where dec: "create_record_for_input_records_list codec self r = Inr (row, md)"
    by (metis surj_pair)
  define s1 where "s1 = self\<lparr>column_metadata := Some md, record_list_in := record_list_in self @ [row]\<rparr>"
  have s1: "accumulate_record codec self r = Inr s1"
    unfolding accumulate_record_Inr s1_def using dec by blast
  have ri: "record_info_in s1 = record_info_in self" by (simp add: s1_def)
  have "\<forall>r\<in>set rs. \<exists>x. create_record_for_input_records_list codec s1 r = Inr x"
    using Cons.prems create_record_info_in [OF ri, of codec] by simp
  from Cons.IH [OF this] s1 show ?case by simp
qed

lemma accumulate_records_needs:
  assumes acc: "accumulate_records codec self records = Inr self'"
  shows "\<forall>r\<in>set records. \<exists>x. create_record_for_input_records_list codec self r = Inr x"
proof
  fix r assume "r \<in> set records"
  then obtain i where i: "i < length records" "records ! i = r"
    by (auto simp: in_set_conv_nth)
  from accumulate_records_buffer [OF acc] obtain rows where
    l: "list_all2 (\<lambda>r row. \<exists>md. create_record_for_input_records_list codec self r = Inr (row, md))
       records rows" by blast
  have "\<exists>md. create_record_for_input_records_list codec self (records ! i) = Inr (rows ! i, md)"
    by (rule list_all2_nthD [OF l i(1)])
  with i show "\<exists>x. create_record_for_input_records_list codec self r = Inr x" by auto
qed

text \<open>
  C7. From an empty buffer, a sequence of \<open>N\<close> \<^verbatim>\<open>accumulate_record\<close> calls runs to its end
  exactly when every record decodes, and then the buffer has length \<open>N\<close> and its \<open>i\<close>-th
  row is the decoded \<open>i\<close>-th record: the rows are in the order of the calls.
\<close>

theorem accumulate_records_fifo:
  assumes "record_list_in self = []"
  shows "((\<exists>self'. accumulate_records codec self records = Inr self') \<longleftrightarrow>
            (\<forall>r\<in>set records. \<exists>x. create_record_for_input_records_list codec self r = Inr x))
    \<and> (\<forall>self'. accumulate_records codec self records = Inr self' \<longrightarrow>
          length (record_list_in self') = length records
          \<and> (\<forall>i<length records. \<exists>md.
                create_record_for_input_records_list codec self (records ! i)
                  = Inr (record_list_in self' ! i, md)))"
proof (intro conjI allI impI iffI)
  assume "\<exists>self'. accumulate_records codec self records = Inr self'"
  then show "\<forall>r\<in>set records. \<exists>x. create_record_for_input_records_list codec self r = Inr x"
    using accumulate_records_needs by blast
next
  assume "\<forall>r\<in>set records. \<exists>x. create_record_for_input_records_list codec self r = Inr x"
  then show "\<exists>self'. accumulate_records codec self records = Inr self'"
    by (rule accumulate_records_total)
next
  fix self' assume r: "accumulate_records codec self records = Inr self'"
  from accumulate_records_buffer [OF r] assms
  have l: "list_all2 (\<lambda>r row. \<exists>md. create_record_for_input_records_list codec self r = Inr (row, md))
             records (record_list_in self')" by auto
  then show "length (record_list_in self') = length records"
    by (simp add: list_all2_lengthD)
  fix i assume "i < length records"
  then show "\<exists>md. create_record_for_input_records_list codec self (records ! i)
                  = Inr (record_list_in self' ! i, md)"
    by (rule list_all2_nthD [OF l])
qed

theorem accumulate_records_fifo_witness:
  "record_list_in iface0 = []
   \<and> accumulate_records codec0 iface0
       [[(''id'', 1), (''n'', 10)], [(''n'', 20), (''id'', 2)], [(''id'', 3), (''n'', 30)]]
     = Inr (iface0\<lparr>record_list_in := [[1, 10], [2, 20], [3, 30]],
                   column_metadata := Some \<lparr>columns =
                     [\<lparr>cm_name = ''id'', cm_type = ''int64'', cm_size = 8, cm_scale = 0,
                        cm_source = [], cm_description = []\<rparr>,
                      \<lparr>cm_name = ''n'', cm_type = ''int64'', cm_size = 8, cm_scale = 0,
                        cm_source = [], cm_description = []\<rparr>]\<rparr>\<rparr>)"
  using accumulate_records_fifo [of iface0 codec0
     "[[(''id'', 1), (''n'', 10)], [(''n'', 20), (''id'', 2)], [(''id'', 3), (''n'', 30)]]"]
  by (simp add: iface0_def codec0_def AyxPluginInterface_init_def accumulate_record_def
        create_record_for_input_records_list_def set_col_metadata_def)

text \<open>
  C6. With list input type, a channel in stream mode whose buffer is not empty returns
  only its first buffered row, and a channel in batch mode returns the whole buffer in order.
\<close>

theorem data_list_modes:
  "(process_data_mode parent = ''stream'' \<and> process_data_input_type parent = ''list''
      \<and> record_list_in self \<noteq> []
      \<longrightarrow> data pd parent self = Inr (Row (hd (record_list_in self))))
   \<and> (process_data_mode parent = ''batch'' \<and> process_data_input_type parent = ''list''
      \<longrightarrow> data pd parent self = Inr (Rows (record_list_in self)))"
  by (auto simp: data_def split: list.splits)

theorem data_list_modes_witness:
  "data (None :: (int list list \<Rightarrow> string list \<Rightarrow> error + unit) option)
      (plugin1\<lparr>process_data_mode := ''stream''\<rparr>) iface_done = Inr (Row [1, 10])
   \<and> data (None :: (int list list \<Rightarrow> string list \<Rightarrow> error + unit) option) plugin1 iface_done
      = Inr (Rows [[1, 10], [2, 20]])"
  using data_list_modes [of "plugin1\<lparr>process_data_mode := ''stream''\<rparr>" iface_done
          "None :: (int list list \<Rightarrow> string list \<Rightarrow> error + unit) option"]
    data_list_modes [of plugin1 iface_done
          "None :: (int list list \<Rightarrow> string list \<Rightarrow> error + unit) option"]
  by (simp add: input_fixture_defs data_def)

text \<open>
  C10. With list input type and stream mode, reading \<^verbatim>\<open>data\<close> on an empty buffer raises
  \<^verbatim>\<open>IndexError\<close>: the accessor indexes the first element of the buffer without a test.
\<close>

theorem data_stream_empty:
  assumes "process_data_mode parent = ''stream''"
    and "process_data_input_type parent = ''list''"
    and "record_list_in self = []"
  shows "data pd parent self = Inl IndexError"
  using assms by (simp add: data_def)

theorem data_stream_empty_witness:
  "process_data_mode (plugin1\<lparr>process_data_mode := ''stream''\<rparr>) = ''stream''
   \<and> process_data_input_type (plugin1\<lparr>process_data_mode := ''stream''\<rparr>) = ''list''
   \<and> record_list_in iface0 = []
   \<and> data (None :: (int list list \<Rightarrow> string list \<Rightarrow> error + unit) option)
        (plugin1\<lparr>process_data_mode := ''stream''\<rparr>) iface0 = Inl IndexError"
  using data_stream_empty [of "plugin1\<lparr>process_data_mode := ''stream''\<rparr>" iface0
          "None :: (int list list \<Rightarrow> string list \<Rightarrow> error + unit) option"]
  by (simp add: input_fixture_defs)

section \<open>Plugin coordinator properties\<close>

text \<open>
  Every required input name is a key of the dictionary of input anchors: the constructor's
  loop establishes it, and attaching a connection and clearing the buffers keep it.
\<close>

lemma init_input_connections_keys:
  "set (required_input_names self) \<subseteq> dom (input_anchors self) \<Longrightarrow>
   set (required_input_names (init_input_connections self connections))
     \<subseteq> dom (input_anchors (init_input_connections self connections))"
proof (induction self connections rule: init_input_connections.induct)
  case (1 self)
  then show ?case by simp
next
  case (2 self name optional connections)
  let ?s = "self\<lparr>input_anchors := (input_anchors self)(name \<mapsto> []),
              required_input_names :=
                (if optional = ''False'' then required_input_names self @ [name]
                 else required_input_names self)\<rparr>"
  from "2.prems" have "set (required_input_names ?s) \<subseteq> dom (input_anchors ?s)" by auto
  then have "set (required_input_names (init_input_connections ?s connections))
     \<subseteq> dom (input_anchors (init_input_connections ?s connections))" by (rule "2.IH")
  then show ?case by simp
qed

lemma save_interface_keys:
  "set (required_input_names self) \<subseteq> dom (input_anchors self) \<Longrightarrow>
   save_interface self name interface = Inr self' \<Longrightarrow>
   set (required_input_names self') \<subseteq> dom (input_anchors self')"
  by (auto simp: save_interface_def split: option.splits)

lemma clear_accumulated_records_keys:
  "set (required_input_names self) \<subseteq> dom (input_anchors self) \<Longrightarrow>
   set (required_input_names (clear_accumulated_records self))
     \<subseteq> dom (input_anchors (clear_accumulated_records self))"
  by (auto simp: clear_accumulated_records_def)

lemma all_inputs_completed_loop_Inr:
  "set names \<subseteq> dom (input_anchors self) \<Longrightarrow>
   all_inputs_completed_loop self names acc =
     Inr (acc \<and> (\<forall>name\<in>set names. \<exists>connections. input_anchors self name = Some connections
            \<and> connections \<noteq> [] \<and> (\<forall>c\<in>set connections. is_complete c)))"
proof (induction names arbitrary: acc)
  case Nil
  then show ?case by simp
next
  case (Cons n ns)
  from Cons.prems obtain cs where cs: "input_anchors self n = Some cs" by auto
  from Cons.prems have sub: "set ns \<subseteq> dom (input_anchors self)" by simp
  show ?case
    unfolding all_inputs_completed_loop.simps cs option.case Cons.IH [OF sub]
    by (auto simp: cs list_all_iff)
qed

lemma all_inputs_completed_loop_True:
  "all_inputs_completed_loop self names acc = Inr True \<Longrightarrow>
   acc \<and> set names \<subseteq> dom (input_anchors self)"
proof (induction names arbitrary: acc)
  case Nil
  then show ?case by simp
next
  case (Cons n ns)
  from Cons.prems obtain cs where cs: "input_anchors self n = Some cs"
    by (cases "input_anchors self n") simp_all
  from Cons.prems have
    "all_inputs_completed_loop self ns
       (if length cs = 0 \<or> \<not> list_all is_complete cs then False else acc) = Inr True"
    by (simp add: cs)
  from Cons.IH [OF this] cs show ?case by (auto split: if_splits)
qed

text \<open>
  C3. \<^verbatim>\<open>all_inputs_completed\<close> returns true if and only if the plugin is initialized and
  every required channel has at least one connection and all its connections are complete.
  When the required names are keys of the dictionary (as the constructor leaves them) the
  call returns that truth value, and in particular it returns false whenever a required
  channel has no connection, whatever the other channels are.
\<close>

theorem all_inputs_completed_iff:
  "(all_inputs_completed self = Inr True \<longleftrightarrow>
      plugin_initialized self
      \<and> (\<forall>name\<in>set (required_input_names self).
            \<exists>connections. input_anchors self name = Some connections
              \<and> 1 \<le> length connections \<and> (\<forall>c\<in>set connections. is_complete c)))
   \<and> (set (required_input_names self) \<subseteq> dom (input_anchors self) \<longrightarrow>
        all_inputs_completed self =
          Inr (plugin_initialized self
               \<and> (\<forall>name\<in>set (required_input_names self).
                     \<exists>connections. input_anchors self name = Some connections
                       \<and> 1 \<le> length connections \<and> (\<forall>c\<in>set connections. is_complete c)))
        \<and> (\<forall>name\<in>set (required_input_names self).
              input_anchors self name = Some [] \<longrightarrow> all_inputs_completed self = Inr False))"
proof (intro conjI impI)
  show "all_inputs_completed self = Inr True \<longleftrightarrow>
      plugin_initialized self
      \<and> (\<forall>name\<in>set (required_input_names self).
            \<exists>connections. input_anchors self name = Some connections
              \<and> 1 \<le> length connections \<and> (\<forall>c\<in>set connections. is_complete c))"
    (is "?L \<longleftrightarrow> ?R")
  proof
    assume l: ?L
    then have init: "plugin_initialized self"
      by (auto simp: all_inputs_completed_def split: if_splits)
    with l have loop: "all_inputs_completed_loop self (required_input_names self) True = Inr True"
      by (simp add: all_inputs_completed_def)
    from all_inputs_completed_loop_True [OF loop]
    have sub: "set (required_input_names self) \<subseteq> dom (input_anchors self)" by simp
    from loop show ?R
      unfolding all_inputs_completed_loop_Inr [OF sub] using init
      by (auto simp: Suc_le_eq)
  next
    assume r: ?R
    then have sub: "set (required_input_names self) \<subseteq> dom (input_anchors self)" by auto
    from r show ?L
      unfolding all_inputs_completed_def all_inputs_completed_loop_Inr [OF sub]
      by (auto simp: Suc_le_eq)
  qed
next
  assume sub: "set (required_input_names self) \<subseteq> dom (input_anchors self)"
  show "all_inputs_completed self =
          Inr (plugin_initialized self
               \<and> (\<forall>name\<in>set (required_input_names self).
                     \<exists>connections. input_anchors self name = Some connections
                       \<and> 1 \<le> length connections \<and> (\<forall>c\<in>set connections. is_complete c)))"
    unfolding all_inputs_completed_def all_inputs_completed_loop_Inr [OF sub]
    by (auto simp: Suc_le_eq)
  show "\<forall>name\<in>set (required_input_names self).
              input_anchors self name = Some [] \<longrightarrow> all_inputs_completed self = Inr False"
  proof (intro ballI impI)
    fix name assume "name \<in> set (required_input_names self)" "input_anchors self name = Some []"
    then have "\<not> (\<forall>name\<in>set (required_input_names self).
               \<exists>connections. input_anchors self name = Some connections
                 \<and> connections \<noteq> [] \<and> (\<forall>c\<in>set connections. is_complete c))"
      by force
    then show "all_inputs_completed self = Inr False"
      unfolding all_inputs_completed_def all_inputs_completed_loop_Inr [OF sub] by simp
  qed
qed

theorem all_inputs_completed_iff_witness:
  "set (required_input_names plugin1) \<subseteq> dom (input_anchors plugin1)
   \<and> save_interface plugin0 ''A'' iface_done = Inr plugin1
   \<and> all_inputs_completed plugin1 = Inr True
   \<and> input_anchors plugin0 ''A'' = Some []
   \<and> all_inputs_completed plugin0 = Inr False"
  using all_inputs_completed_iff [of plugin1] all_inputs_completed_iff [of plugin0]
  by (simp add: input_fixture_defs all_inputs_completed_def is_complete_def save_interface_def)

text \<open>
  C8. \<^verbatim>\<open>clear_accumulated_records\<close> empties the buffer of every connection of every input
  anchor and changes nothing else: the plugin's own fields and the keys are the same, every
  anchor keeps its connections, and each connection is the one before with only
  \<^verbatim>\<open>record_list_in\<close> reset (column metadata, complete flag, initialized flag, name, record
  info, progress and mode unchanged).
\<close>

theorem clear_accumulated_records_frame:
  "plugin_initialized (clear_accumulated_records self) = plugin_initialized self
   \<and> required_input_names (clear_accumulated_records self) = required_input_names self
   \<and> process_data_mode (clear_accumulated_records self) = process_data_mode self
   \<and> process_data_input_type (clear_accumulated_records self) = process_data_input_type self
   \<and> dom (input_anchors (clear_accumulated_records self)) = dom (input_anchors self)
   \<and> (\<forall>name connections. input_anchors self name = Some connections \<longrightarrow>
        (\<exists>connections'. input_anchors (clear_accumulated_records self) name = Some connections'
           \<and> length connections' = length connections
           \<and> (\<forall>i<length connections.
                 record_list_in (connections' ! i) = []
                 \<and> connections' ! i = (connections ! i)\<lparr>record_list_in := []\<rparr>
                 \<and> column_metadata (connections' ! i) = column_metadata (connections ! i)
                 \<and> input_complete (connections' ! i) = input_complete (connections ! i)
                 \<and> initialized (connections' ! i) = initialized (connections ! i)
                 \<and> iface_name (connections' ! i) = iface_name (connections ! i)
                 \<and> record_info_in (connections' ! i) = record_info_in (connections ! i)
                 \<and> d_progress_percentage (connections' ! i) = d_progress_percentage (connections ! i)
                 \<and> data_processing_mode (connections' ! i) = data_processing_mode (connections ! i))))"
  by (auto simp: clear_accumulated_records_def)

theorem clear_accumulated_records_frame_witness:
  "input_anchors plugin1 ''A'' = Some [iface_done]
   \<and> record_list_in iface_done = [[1, 10], [2, 20]]
   \<and> input_anchors (clear_accumulated_records plugin1) ''A''
       = Some [iface0\<lparr>input_complete := True\<rparr>]
   \<and> input_anchors (clear_accumulated_records plugin1) ''B'' = Some []
   \<and> plugin_initialized (clear_accumulated_records plugin1)"
  using clear_accumulated_records_frame [of plugin1]
  by (simp add: input_fixture_defs clear_accumulated_records_def)

section \<open>Output channel properties\<close>


lemma get_data_list_cases:
  "oa_data self = d \<Longrightarrow>
   get_data_list self =
     (case d of
        PDataFrame cols rows \<Rightarrow> Inr (PList (map PList rows))
      | PList [] \<Rightarrow> Inl IndexError
      | PList (first # rest) \<Rightarrow> (if is_list first then Inr d else Inr (PList [d]))
      | _ \<Rightarrow> Inr d)"
  by (cases d) (auto simp: get_data_list_def split: list.splits)






lemma push_records_loop_encode:
  "oa_handler self = Some calls \<Longrightarrow> oa_record_info_out self = Some ri \<Longrightarrow>
   encode_rows plugin md ri (oa_record_creator self) vals = Inr (records, creator) \<Longrightarrow>
   push_records_loop plugin md self vals =
     (None, self\<lparr>oa_record_creator := creator,
                 oa_handler := Some (calls @ map (\<lambda>r. PushRecord r False) records)\<rparr>)"
proof (induction vals arbitrary: self calls records)
  case Nil
  then show ?case by (cases self) simp
next
  case (Cons v vs)
  from Cons.prems(3) obtain out_record c1 recs where
    enc: "build_ayx_record_from_list plugin v md (Some ri) (oa_record_creator self) = Inr (out_record, c1)"
    and rest: "encode_rows plugin md ri c1 vs = Inr (recs, creator)"
    and records: "records = out_record # recs"
    by (auto split: sum.splits prod.splits)
  let ?s = "self\<lparr>oa_record_creator := c1,
                  oa_handler := Some (calls @ [PushRecord out_record False])\<rparr>"
  have rest': "encode_rows plugin md ri (oa_record_creator ?s) vs = Inr (recs, creator)"
    using rest by simp
  have "push_records_loop plugin md ?s vs =
     (None, ?s\<lparr>oa_record_creator := creator,
                 oa_handler := Some ((calls @ [PushRecord out_record False])
                                      @ map (\<lambda>r. PushRecord r False) recs)\<rparr>)"
    by (rule Cons.IH [OF _ _ rest']) (simp_all add: Cons.prems(2))
  then show ?case
    by (simp add: enc Cons.prems(1,2) records)
qed

lemma encode_rows_chain:
  "encode_rows plugin md ri creator rows = Inr (records, creator') \<Longrightarrow>
   length records = length rows
   \<and> (\<exists>creators. length creators = Suc (length rows) \<and> creators ! 0 = creator
         \<and> creators ! length rows = creator'
         \<and> (\<forall>i<length rows.
               build_ayx_record_from_list plugin (rows ! i) md (Some ri) (creators ! i)
                 = Inr (records ! i, creators ! Suc i)))"
proof (induction rows arbitrary: creator records)
  case Nil
  then have r: "records = []" and c: "creator' = creator" by simp_all
  show ?case unfolding r c by (intro conjI exI [of _ "[creator]"]) simp_all
next
  case (Cons row rows)
  from Cons.prems obtain out_record c1 recs where
    enc: "build_ayx_record_from_list plugin row md (Some ri) creator = Inr (out_record, c1)"
    and rest: "encode_rows plugin md ri c1 rows = Inr (recs, creator')"
    and records: "records = out_record # recs"
    by (auto split: sum.splits prod.splits)
  from Cons.IH [OF rest] obtain creators where len: "length recs = length rows"
    and cl: "length creators = Suc (length rows)" and c0: "creators ! 0 = c1"
    and cn: "creators ! length rows = creator'"
    and step: "\<forall>i<length rows.
               build_ayx_record_from_list plugin (rows ! i) md (Some ri) (creators ! i)
                 = Inr (recs ! i, creators ! Suc i)"
    by blast
  have "\<forall>i<length (row # rows).
               build_ayx_record_from_list plugin ((row # rows) ! i) md (Some ri) ((creator # creators) ! i)
                 = Inr (records ! i, (creator # creators) ! Suc i)"
  proof (intro allI impI)
    fix i assume i: "i < length (row # rows)"
    show "build_ayx_record_from_list plugin ((row # rows) ! i) md (Some ri) ((creator # creators) ! i)
                 = Inr (records ! i, (creator # creators) ! Suc i)"
    proof (cases i)
      case 0
      then show ?thesis by (simp add: enc records c0)
    next
      case (Suc j)
      with i have "j < length rows" by simp
      with step have "build_ayx_record_from_list plugin (rows ! j) md (Some ri) (creators ! j)
                 = Inr (recs ! j, creators ! Suc j)" by blast
      then show ?thesis by (simp add: Suc records)
    qed
  qed
  moreover have "length (creator # creators) = Suc (length (row # rows))" by (simp add: cl)
  moreover have "(creator # creators) ! 0 = creator" by simp
  moreover have "(creator # creators) ! length (row # rows) = creator'" by (simp add: cn)
  moreover have "length records = length (row # rows)" by (simp add: records len)
  ultimately show ?case by blast
qed

text \<open>The step \<^verbatim>\<open>if not self._record_info_out: self.push_metadata(plugin)\<close>.\<close>

lemma negotiate_stored:
  "oa_record_info_out self = Some ri \<Longrightarrow>
   (if \<not> truthy plugin (oa_record_info_out self) then push_metadata plugin self else (None, self))
     = (None, self)"
  by (simp add: push_metadata_def)

lemma negotiate_unset:
  assumes "oa_record_info_out self = None"
    and "build_ayx_record_info plugin (oa_metadata self) (create_record_info plugin) = (eb, ri)"
  shows "(if \<not> truthy plugin (oa_record_info_out self) then push_metadata plugin self else (None, self))
     = (case eb of
          Some e \<Rightarrow> (Some e, self\<lparr>oa_record_info_out := Some ri\<rparr>)
        | None \<Rightarrow>
            (case oa_handler self of
               None \<Rightarrow> (Some AttributeError, self\<lparr>oa_record_info_out := Some ri\<rparr>)
             | Some calls \<Rightarrow>
                 (None, self\<lparr>oa_record_info_out := Some ri, oa_handler := Some (calls @ [Init ri])\<rparr>)))"
  using assms by (simp add: push_metadata_def truthy_def metadata_def split: option.splits)

lemma push_records_unfold:
  assumes "get_data_list self = Inr v" and "v \<noteq> PNone"
    and "(if \<not> truthy plugin (oa_record_info_out self) then push_metadata plugin self else (None, self))
           = (en, self1)"
  shows "push_records plugin self =
     (case en of
        Some e \<Rightarrow> (Some e, self1)
      | None \<Rightarrow>
          (case py_iter v of
             Inl e \<Rightarrow> (Some e, self1)
           | Inr vals \<Rightarrow>
               (case push_records_loop plugin (oa_metadata self) self1 vals of
                  (Some e, self2) \<Rightarrow> (Some e, self2)
                | (None, self2) \<Rightarrow> (None, data_setter self2 PNone))))"
  unfolding push_records_def assms(1) sum.case Let_def assms(3) metadata_def
  using assms(2) by (simp split: option.splits)





lemma push_records_pushes:
  assumes h: "oa_handler self = Some calls"
    and g: "get_data_list self = Inr payload" and pn: "payload \<noteq> PNone"
    and it: "py_iter payload = Inr vals"
    and c: "committed_record_info plugin self = (None, ri)"
    and enc: "encode_rows plugin (oa_metadata self) ri (oa_record_creator self) vals = Inr (records, creator)"
  shows "push_records plugin self =
       (None, self\<lparr>oa_data := PNone, oa_record_info_out := Some ri, oa_record_creator := creator,
                   oa_handler := Some (calls @ (if oa_record_info_out self = None then [Init ri] else [])
                                         @ map (\<lambda>r. PushRecord r False) records)\<rparr>)"
proof (cases "oa_record_info_out self")
  case None
  with c have b: "build_ayx_record_info plugin (oa_metadata self) (create_record_info plugin) = (None, ri)"
    by (simp add: committed_record_info_def)
  let ?s = "self\<lparr>oa_record_info_out := Some ri, oa_handler := Some (calls @ [Init ri])\<rparr>"
  from negotiate_unset [OF None b] h
  have n: "(if \<not> truthy plugin (oa_record_info_out self) then push_metadata plugin self else (None, self))
         = (None, ?s)" by simp
  have enc': "encode_rows plugin (oa_metadata self) ri (oa_record_creator ?s) vals = Inr (records, creator)"
    using enc by simp
  have l: "push_records_loop plugin (oa_metadata self) ?s vals =
     (None, ?s\<lparr>oa_record_creator := creator,
                 oa_handler := Some ((calls @ [Init ri]) @ map (\<lambda>r. PushRecord r False) records)\<rparr>)"
    by (rule push_records_loop_encode [OF _ _ enc']) simp_all
  show ?thesis
    unfolding push_records_unfold [OF g pn n]
    by (simp add: it l None data_setter_def)
next
  case (Some ri')
  with c have eq: "ri' = ri" by (simp add: committed_record_info_def)
  have l: "push_records_loop plugin (oa_metadata self) self vals =
     (None, self\<lparr>oa_record_creator := creator,
                 oa_handler := Some (calls @ map (\<lambda>r. PushRecord r False) records)\<rparr>)"
    by (rule push_records_loop_encode [OF h _ enc]) (simp add: Some eq)
  have u: "self\<lparr>oa_data := PNone, oa_record_info_out := Some ri, oa_record_creator := creator,
                 oa_handler := Some (calls @ map (\<lambda>r. PushRecord r False) records)\<rparr>
          = self\<lparr>oa_data := PNone, oa_record_creator := creator,
                 oa_handler := Some (calls @ map (\<lambda>r. PushRecord r False) records)\<rparr>"
    using Some eq by (cases self) simp
  show ?thesis
    unfolding push_records_unfold [OF g pn negotiate_stored [OF Some]]
    by (simp add: it l Some data_setter_def u)
qed

lemma spec_rows_refined:
  assumes "spec_rows d = Some rows" and "list_all is_list rows"
  shows "\<exists>payload. (case d of
        PDataFrame cols trows \<Rightarrow> Inr (PList (map PList trows))
      | PList [] \<Rightarrow> Inl IndexError
      | PList (first # rest) \<Rightarrow> (if is_list first then Inr d else Inr (PList [d]))
      | _ \<Rightarrow> Inr d) = (Inr payload :: error + 'a pyval) \<and> payload \<noteq> PNone \<and> py_iter payload = Inr rows"
proof (cases d)
  case (PList xs)
  with assms(1) obtain first rest where xs: "xs = first # rest"
    by (cases xs) (auto simp: spec_rows_def)
  show ?thesis
  proof (cases "list_all is_sequence xs")
    case True
    with assms(1) PList xs have "rows = xs" by (simp add: spec_rows_def)
    with assms(2) xs have "is_list first" by simp
    with PList xs \<open>rows = xs\<close> show ?thesis by simp
  next
    case False
    with assms(1) PList xs have r: "rows = [d]" and sc: "list_all is_scalar xs"
      by (auto simp: spec_rows_def split: if_splits)
    from sc xs have "\<not> is_list first" by (cases first) simp_all
    with PList xs r show ?thesis by simp
  qed
next
  case (PTuple xs)
  with assms(1) have ne: "xs \<noteq> []" by (auto simp: spec_rows_def)
  show ?thesis
  proof (cases "list_all is_sequence xs")
    case True
    with assms(1) PTuple ne have "rows = xs" by (simp add: spec_rows_def)
    with PTuple show ?thesis by simp
  next
    case False
    with assms(1) PTuple ne have "rows = [d]" by (auto simp: spec_rows_def split: if_splits)
    with assms(2) PTuple show ?thesis by simp
  qed
qed (use assms in \<open>auto simp: spec_rows_def list_all_iff\<close>)

text \<open>
  C4, as amended. \<^verbatim>\<open>push_records\<close> normalises the payload as \<^verbatim>\<open>get_data_list\<close> does: a
  table becomes the list of its rows, a non-empty list whose first element is not a Python
  list (a single row, but also a list of row tuples) is wrapped as a singleton sequence, and
  every other payload is taken as it is. On a channel with a sink attached whose normalised
  payload is not null, when the record info is available (already stored, or built without a
  raise) and every element encodes, the call returns with the payload null, the sink having
  received (after the binding, if this call made it) the encoded elements in their order,
  element \<open>i\<close> being encoded with the record creator that element \<open>i - 1\<close> returned. Whenever
  the rows of the payload are Python lists, the normalised sequence is the payload's sequence
  of row tuples in the sense of the specification.
\<close>

theorem push_records_in_payload_order:
  "(oa_handler self = Some calls \<and> get_data_list self = Inr payload \<and> payload \<noteq> PNone
      \<and> py_iter payload = Inr vals \<and> committed_record_info plugin self = (None, ri)
      \<and> encode_rows plugin (oa_metadata self) ri (oa_record_creator self) vals = Inr (records, creator)
     \<longrightarrow> push_records plugin self =
           (None, self\<lparr>oa_data := PNone, oa_record_info_out := Some ri, oa_record_creator := creator,
                       oa_handler := Some (calls @ (if oa_record_info_out self = None then [Init ri] else [])
                                             @ map (\<lambda>r. PushRecord r False) records)\<rparr>)
         \<and> length records = length vals
         \<and> (\<exists>creators. length creators = Suc (length vals)
               \<and> creators ! 0 = oa_record_creator self \<and> creators ! length vals = creator
               \<and> (\<forall>i<length vals.
                     build_ayx_record_from_list plugin (vals ! i) (oa_metadata self) (Some ri) (creators ! i)
                       = Inr (records ! i, creators ! Suc i))))
   \<and> (oa_data self = PDataFrame cols trows \<longrightarrow> get_data_list self = Inr (PList (map PList trows)))
   \<and> (oa_data self = PList (first # rest) \<and> \<not> is_list first
        \<longrightarrow> get_data_list self = Inr (PList [PList (first # rest)]))
   \<and> (oa_data self = PList (first # rest) \<and> is_list first
        \<longrightarrow> get_data_list self = Inr (PList (first # rest)))
   \<and> (\<not> is_dataframe (oa_data self) \<and> \<not> is_list (oa_data self)
        \<longrightarrow> get_data_list self = Inr (oa_data self))
   \<and> (spec_rows (oa_data self) = Some rows \<and> list_all is_list rows
        \<longrightarrow> (\<exists>normal. get_data_list self = Inr normal \<and> normal \<noteq> PNone \<and> py_iter normal = Inr rows))"
proof (intro conjI impI)
  assume a: "oa_handler self = Some calls \<and> get_data_list self = Inr payload \<and> payload \<noteq> PNone
      \<and> py_iter payload = Inr vals \<and> committed_record_info plugin self = (None, ri)
      \<and> encode_rows plugin (oa_metadata self) ri (oa_record_creator self) vals = Inr (records, creator)"
  then have enc: "encode_rows plugin (oa_metadata self) ri (oa_record_creator self) vals = Inr (records, creator)"
    and h: "oa_handler self = Some calls" and g: "get_data_list self = Inr payload"
    and pn: "payload \<noteq> PNone" and it: "py_iter payload = Inr vals"
    and c: "committed_record_info plugin self = (None, ri)"
    by simp_all
  show "push_records plugin self =
           (None, self\<lparr>oa_data := PNone, oa_record_info_out := Some ri, oa_record_creator := creator,
                       oa_handler := Some (calls @ (if oa_record_info_out self = None then [Init ri] else [])
                                             @ map (\<lambda>r. PushRecord r False) records)\<rparr>)"
    by (rule push_records_pushes [OF h g pn it c enc])
  from encode_rows_chain [OF enc]
  show "length records = length vals"
    and "\<exists>creators. length creators = Suc (length vals)
               \<and> creators ! 0 = oa_record_creator self \<and> creators ! length vals = creator
               \<and> (\<forall>i<length vals.
                     build_ayx_record_from_list plugin (vals ! i) (oa_metadata self) (Some ri) (creators ! i)
                       = Inr (records ! i, creators ! Suc i))"
    by blast+
next
  assume "oa_data self = PDataFrame cols trows"
  then show "get_data_list self = Inr (PList (map PList trows))"
    by (simp add: get_data_list_cases)
next
  assume "oa_data self = PList (first # rest) \<and> \<not> is_list first"
  then show "get_data_list self = Inr (PList [PList (first # rest)])"
    by (simp add: get_data_list_cases [of self "PList (first # rest)"])
next
  assume "oa_data self = PList (first # rest) \<and> is_list first"
  then show "get_data_list self = Inr (PList (first # rest))"
    by (simp add: get_data_list_cases [of self "PList (first # rest)"])
next
  assume a: "\<not> is_dataframe (oa_data self) \<and> \<not> is_list (oa_data self)"
  then show "get_data_list self = Inr (oa_data self)"
    by (cases "oa_data self") (simp_all add: get_data_list_def)
next
  assume a: "spec_rows (oa_data self) = Some rows \<and> list_all is_list rows"
  then have "spec_rows (oa_data self) = Some rows" and "list_all is_list rows" by simp_all
  from spec_rows_refined [OF this]
  show "\<exists>normal. get_data_list self = Inr normal \<and> normal \<noteq> PNone \<and> py_iter normal = Inr rows"
    unfolding get_data_list_cases [OF refl] .
qed

theorem push_records_in_payload_order_witness:
  "push_records out_codec0
      (anchor0\<lparr>oa_metadata := Some schema1,
               oa_data := PList [PList [PScalar 1, PStr ''a''], PList [PScalar 2, PStr ''b'']]\<rparr>)
     = (None, \<lparr>oa_data = PNone, oa_metadata = Some schema1, oa_record_info_out = Some [''id'', ''tag''],
            oa_record_creator = Some 1,
            oa_handler = Some [Init [''id'', ''tag''],
                               PushRecord [(''id'', PScalar 1), (''tag'', PStr ''a'')] False,
                               PushRecord [(''id'', PScalar 2), (''tag'', PStr ''b'')] False]\<rparr>)
   \<and> spec_rows (PList [PList [PScalar 1, PStr ''a''], PList [PScalar 2, PStr ''b'']] :: int pyval)
     = Some [PList [PScalar 1, PStr ''a''], PList [PScalar 2, PStr ''b'']]
   \<and> push_records out_codec0 (anchor1\<lparr>oa_data := PList [PScalar 7, PStr ''z'']\<rparr>)
     = (None, \<lparr>oa_data = PNone, oa_metadata = Some schema1, oa_record_info_out = Some [''id'', ''tag''],
            oa_record_creator = Some 1,
            oa_handler = Some [Init [''id'', ''tag''],
                               PushRecord [(''id'', PScalar 1), (''tag'', PStr ''a'')] False,
                               PushRecord [(''id'', PScalar 7), (''tag'', PStr ''z'')] False]\<rparr>)
   \<and> push_records out_codec0
      (anchor1\<lparr>oa_data := PTuple [PList [PScalar 8, PStr ''y''], PList [PScalar 9, PStr ''x'']]\<rparr>)
     = (None, \<lparr>oa_data = PNone, oa_metadata = Some schema1, oa_record_info_out = Some [''id'', ''tag''],
            oa_record_creator = Some 2,
            oa_handler = Some [Init [''id'', ''tag''],
                               PushRecord [(''id'', PScalar 1), (''tag'', PStr ''a'')] False,
                               PushRecord [(''id'', PScalar 8), (''tag'', PStr ''y'')] False,
                               PushRecord [(''id'', PScalar 9), (''tag'', PStr ''x'')] False]\<rparr>)"
  using push_records_in_payload_order [where self = "anchor0\<lparr>oa_metadata := Some schema1,
               oa_data := PList [PList [PScalar 1, PStr ''a''], PList [PScalar 2, PStr ''b'']]\<rparr>"
          and plugin = out_codec0 and calls = "[]"
          and payload = "PList [PList [PScalar 1, PStr ''a''], PList [PScalar 2, PStr ''b'']]"
          and vals = "[PList [PScalar 1, PStr ''a''], PList [PScalar 2, PStr ''b'']]"
          and ri = "[''id'', ''tag'']"
          and records = "[[(''id'', PScalar 1), (''tag'', PStr ''a'')],
                          [(''id'', PScalar 2), (''tag'', PStr ''b'')]]"
          and creator = "Some 1" and cols = "[]" and trows = "[]"
          and first = "PList [PScalar 1, PStr ''a'']" and rest = "[PList [PScalar 2, PStr ''b'']]"
          and rows = "[PList [PScalar 1, PStr ''a''], PList [PScalar 2, PStr ''b'']]"]
    push_records_in_payload_order [where self = "anchor1\<lparr>oa_data := PList [PScalar 7, PStr ''z'']\<rparr>"
          and plugin = out_codec0
          and calls = "[Init [''id'', ''tag''],
                        PushRecord [(''id'', PScalar 1), (''tag'', PStr ''a'')] False]"
          and payload = "PList [PList [PScalar 7, PStr ''z'']]"
          and vals = "[PList [PScalar 7, PStr ''z'']]"
          and ri = "[''id'', ''tag'']"
          and records = "[[(''id'', PScalar 7), (''tag'', PStr ''z'')]]"
          and creator = "Some 1" and cols = "[]" and trows = "[]"
          and first = "PScalar 7" and rest = "[PStr ''z'']"
          and rows = "[PList [PScalar 7, PStr ''z'']]"]
    push_records_in_payload_order [where self = "anchor1\<lparr>oa_data :=
               PTuple [PList [PScalar 8, PStr ''y''], PList [PScalar 9, PStr ''x'']]\<rparr>"
          and plugin = out_codec0
          and calls = "[Init [''id'', ''tag''],
                        PushRecord [(''id'', PScalar 1), (''tag'', PStr ''a'')] False]"
          and payload = "PTuple [PList [PScalar 8, PStr ''y''], PList [PScalar 9, PStr ''x'']]"
          and vals = "[PList [PScalar 8, PStr ''y''], PList [PScalar 9, PStr ''x'']]"
          and ri = "[''id'', ''tag'']"
          and records = "[[(''id'', PScalar 8), (''tag'', PStr ''y'')],
                          [(''id'', PScalar 9), (''tag'', PStr ''x'')]]"
          and creator = "Some 2" and cols = "[]" and trows = "[]"
          and first = "PNone" and rest = "[]"
          and rows = "[PList [PScalar 8, PStr ''y''], PList [PScalar 9, PStr ''x'']]"]
  by (simp add: fixture_defs output_defs)

text \<open>
  C4, the claim as stated fails: a payload that is a list of two row tuples is a sequence
  of two rows, but \<^verbatim>\<open>get_data_list\<close> wraps it as a single row, and one row whose two cells
  are the tuples is encoded and pushed instead of each tuple.
\<close>

theorem list_of_row_tuples_counterexample:
  "oa_data anchor_tuples = PList [PTuple [PScalar 1, PStr ''a''], PTuple [PScalar 2, PStr ''b'']]
   \<and> spec_rows (oa_data anchor_tuples)
       = Some [PTuple [PScalar 1, PStr ''a''], PTuple [PScalar 2, PStr ''b'']]
   \<and> get_data_list anchor_tuples
       = Inr (PList [PList [PTuple [PScalar 1, PStr ''a''], PTuple [PScalar 2, PStr ''b'']]])
   \<and> push_records out_codec0 anchor_tuples
       = (None, \<lparr>oa_data = PNone, oa_metadata = Some schema1,
              oa_record_info_out = Some [''id'', ''tag''], oa_record_creator = Some 0,
              oa_handler = Some [Init [''id'', ''tag''],
                PushRecord [(''id'', PTuple [PScalar 1, PStr ''a'']),
                            (''tag'', PTuple [PScalar 2, PStr ''b''])] False]\<rparr>)"
  by (simp add: fixture_defs output_defs)







text \<open>
  C2. A null payload makes \<^verbatim>\<open>push_records\<close> return at once with the channel unchanged: no
  row pushed, nothing bound. An empty list does not: \<^verbatim>\<open>get_data_list\<close> reads its first
  element and the call raises \<^verbatim>\<open>IndexError\<close>, leaving the channel as it was. An empty table
  is normalised to an empty sequence, which is not null, so the record info is built and
  bound although no row follows.
\<close>

theorem push_records_null_or_empty:
  "(oa_data self = PNone \<longrightarrow> push_records plugin self = (None, self))
   \<and> (oa_data self = PList [] \<longrightarrow> push_records plugin self = (Some IndexError, self))
   \<and> (oa_data self = PDataFrame cols [] \<and> oa_record_info_out self = None
        \<and> oa_handler self = Some calls
        \<and> build_ayx_record_info plugin (oa_metadata self) (create_record_info plugin) = (None, ri)
      \<longrightarrow> push_records plugin self =
            (None, self\<lparr>oa_data := PNone, oa_record_info_out := Some ri,
                        oa_handler := Some (calls @ [Init ri])\<rparr>))"
proof (intro conjI impI)
  assume "oa_data self = PNone"
  then show "push_records plugin self = (None, self)"
    by (simp add: push_records_def get_data_list_def)
next
  assume "oa_data self = PList []"
  then show "push_records plugin self = (Some IndexError, self)"
    by (simp add: push_records_def get_data_list_def)
next
  assume a: "oa_data self = PDataFrame cols [] \<and> oa_record_info_out self = None
        \<and> oa_handler self = Some calls
        \<and> build_ayx_record_info plugin (oa_metadata self) (create_record_info plugin) = (None, ri)"
  then have g: "get_data_list self = Inr (PList [])" by (simp add: get_data_list_cases)
  from a have c: "committed_record_info plugin self = (None, ri)"
    by (simp add: committed_record_info_def)
  from a have u: "self\<lparr>oa_data := PNone, oa_record_info_out := Some ri,
                      oa_record_creator := oa_record_creator self,
                      oa_handler := Some (calls @ [Init ri])\<rparr>
      = self\<lparr>oa_data := PNone, oa_record_info_out := Some ri,
                      oa_handler := Some (calls @ [Init ri])\<rparr>"
    by (cases self) simp
  from a push_records_pushes [OF _ g _ _ c, of calls "[]" "[]" "oa_record_creator self"]
  show "push_records plugin self =
            (None, self\<lparr>oa_data := PNone, oa_record_info_out := Some ri,
                        oa_handler := Some (calls @ [Init ri])\<rparr>)"
    by (simp add: u)
qed

theorem push_records_null_or_empty_witness:
  "push_records out_codec0 (anchor0\<lparr>oa_metadata := Some schema1\<rparr>)
     = (None, anchor0\<lparr>oa_metadata := Some schema1\<rparr>)
   \<and> push_records out_codec0 (anchor0\<lparr>oa_metadata := Some schema1, oa_data := PList []\<rparr>)
     = (Some IndexError, anchor0\<lparr>oa_metadata := Some schema1, oa_data := PList []\<rparr>)
   \<and> push_records out_codec0
       (anchor0\<lparr>oa_metadata := Some schema1, oa_data := PDataFrame [''id'', ''tag''] []\<rparr>)
     = (None, \<lparr>oa_data = PNone, oa_metadata = Some schema1, oa_record_info_out = Some [''id'', ''tag''],
            oa_record_creator = None, oa_handler = Some [Init [''id'', ''tag'']]\<rparr>)"
  using push_records_null_or_empty [where self = "anchor0\<lparr>oa_metadata := Some schema1\<rparr>"
          and plugin = out_codec0 and cols = "[]" and calls = "[]" and ri = "[]"]
    push_records_null_or_empty [where self = "anchor0\<lparr>oa_metadata := Some schema1, oa_data := PList []\<rparr>"
          and plugin = out_codec0 and cols = "[]" and calls = "[]" and ri = "[]"]
    push_records_null_or_empty [where self = "anchor0\<lparr>oa_metadata := Some schema1,
            oa_data := PDataFrame [''id'', ''tag''] []\<rparr>"
          and plugin = out_codec0 and cols = "[''id'', ''tag'']" and calls = "[]"
          and ri = "[''id'', ''tag'']"]
  by (simp add: fixture_defs output_defs)

end
